theory Spec2Isabelle
  imports Complex_Main "HOL-Library.Multiset"
begin

section \<open>JavaScript values as the chart code sees them\<close>

text \<open>
  The transform of \<^verbatim>\<open>frontend/app/page.tsx\<close> runs on rows decoded from JSON: every row
  is a plain object from column names to scalars.  A double is \<open>NaN\<close>, one of the two
  infinities, or a finite number; a finite double is modelled by the rational it denotes,
  and addition of finite numbers is exact (rounding, overflow to an infinity and the
  negative zero are outside the model).
\<close>

datatype jsnum = Fin rat | PInf | NInf | NaN

datatype jsval = Undefined | Null | Bool bool | Num jsnum | Str string

text \<open>
  An object is the list of its own properties in enumeration order (\<^verbatim>\<open>Object.keys\<close>);
  an insertion-ordered \<^verbatim>\<open>Map\<close> is the list of its entries.  A row's keys are the column
  names as the runtime enumerates them, each once; properties inherited from
  \<^verbatim>\<open>Object.prototype\<close> are not modelled, so \<^verbatim>\<open>k in row\<close> asks for an own key.  An object
  the code builds lists its keys in insertion order (the runtime would move keys that are
  array indices to the front; no statement below depends on the position of a key).
\<close>

type_synonym obj = "(string \<times> jsval) list"

definition keys :: "('k \<times> 'v) list \<Rightarrow> 'k list" where
  "keys ob = map fst ob"

definition has_key :: "('k \<times> 'v) list \<Rightarrow> 'k \<Rightarrow> bool" where
  "has_key ob k = (k \<in> set (keys ob))"

definition obj_get :: "obj \<Rightarrow> string \<Rightarrow> jsval" where
  "obj_get ob k = (case map_of ob k of None \<Rightarrow> Undefined | Some v \<Rightarrow> v)"

text \<open>Assignment \<^verbatim>\<open>ob[k] = v\<close> and \<^verbatim>\<open>m.set(k, v)\<close>: an existing key keeps its place.\<close>

primrec upsert :: "'k \<Rightarrow> 'v \<Rightarrow> ('k \<times> 'v) list \<Rightarrow> ('k \<times> 'v) list" where
  "upsert k v [] = [(k, v)]"
| "upsert k v (p # ps) = (if fst p = k then (k, v) # ps else p # upsert k v ps)"

subsection \<open>What the runtime supplies\<close>

text \<open>
  The conversions and comparisons below are built into the JavaScript runtime, not
  written in this repository.  The transform takes them as a parameter: every general
  theorem holds for whatever the runtime computes.
  \<^item> \<open>Number_str s\<close> is \<^verbatim>\<open>Number(s)\<close> on a string;
  \<^item> \<open>String_num n\<close> is \<^verbatim>\<open>String(n)\<close> on a number;
  \<^item> \<open>Date_getTime s\<close> is \<^verbatim>\<open>new Date(s).getTime()\<close> on a string: the time value,
    \<open>NaN\<close> for a string that is no date (the constructor does not throw);
  \<^item> \<open>localeCompare a b\<close> is \<^verbatim>\<open>a.localeCompare(b)\<close>;
  \<^item> \<open>toLowerCase s\<close> is \<^verbatim>\<open>s.toLowerCase()\<close>.
\<close>

record runtime =
  Number_str :: "string \<Rightarrow> jsnum"
  String_num :: "jsnum \<Rightarrow> string"
  Date_getTime :: "string \<Rightarrow> jsnum"
  localeCompare :: "string \<Rightarrow> string \<Rightarrow> jsnum"
  toLowerCase :: "string \<Rightarrow> string"

subsection \<open>Operators\<close>

fun num_add :: "jsnum \<Rightarrow> jsnum \<Rightarrow> jsnum" where
  "num_add NaN _ = NaN"
| "num_add _ NaN = NaN"
| "num_add PInf NInf = NaN"
| "num_add NInf PInf = NaN"
| "num_add PInf _ = PInf"
| "num_add _ PInf = PInf"
| "num_add NInf _ = NInf"
| "num_add _ NInf = NInf"
| "num_add (Fin a) (Fin b) = Fin (a + b)"

fun num_neg :: "jsnum \<Rightarrow> jsnum" where
  "num_neg (Fin a) = Fin (- a)"
| "num_neg PInf = NInf"
| "num_neg NInf = PInf"
| "num_neg NaN = NaN"

definition num_sub :: "jsnum \<Rightarrow> jsnum \<Rightarrow> jsnum" where
  "num_sub a b = num_add a (num_neg b)"

text \<open>\<open>a < b\<close> on numbers; false as soon as one side is \<open>NaN\<close>.\<close>

fun num_less :: "jsnum \<Rightarrow> jsnum \<Rightarrow> bool" where
  "num_less NaN _ = False"
| "num_less _ NaN = False"
| "num_less (Fin a) (Fin b) = (a < b)"
| "num_less (Fin a) PInf = True"
| "num_less (Fin a) NInf = False"
| "num_less PInf _ = False"
| "num_less NInf NInf = False"
| "num_less NInf _ = True"

fun truthy :: "jsval \<Rightarrow> bool" where
  "truthy Undefined = False"
| "truthy Null = False"
| "truthy (Bool b) = b"
| "truthy (Num n) = (n \<noteq> NaN \<and> n \<noteq> Fin 0)"
| "truthy (Str s) = (s \<noteq> [])"

fun nullish :: "jsval \<Rightarrow> bool" where
  "nullish Undefined = True"
| "nullish Null = True"
| "nullish _ = False"

text \<open>\<^verbatim>\<open>a || b\<close> and \<^verbatim>\<open>a ?? b\<close>.\<close>

definition js_or :: "jsval \<Rightarrow> jsval \<Rightarrow> jsval" where
  "js_or a b = (if truthy a then a else b)"

definition js_coalesce :: "jsval \<Rightarrow> jsval \<Rightarrow> jsval" where
  "js_coalesce a b = (if nullish a then b else a)"

fun ToString :: "runtime \<Rightarrow> jsval \<Rightarrow> string" where
  "ToString rt Undefined = ''undefined''"
| "ToString rt Null = ''null''"
| "ToString rt (Bool b) = (if b then ''true'' else ''false'')"
| "ToString rt (Num n) = String_num rt n"
| "ToString rt (Str s) = s"

fun ToNumber :: "runtime \<Rightarrow> jsval \<Rightarrow> jsnum" where
  "ToNumber rt Undefined = NaN"
| "ToNumber rt Null = Fin 0"
| "ToNumber rt (Bool b) = (if b then Fin 1 else Fin 0)"
| "ToNumber rt (Num n) = n"
| "ToNumber rt (Str s) = Number_str rt s"

fun is_Str :: "jsval \<Rightarrow> bool" where
  "is_Str (Str s) = True"
| "is_Str _ = False"

text \<open>\<^verbatim>\<open>a + b\<close>: concatenation as soon as one side is a string, addition otherwise.\<close>

definition js_plus :: "runtime \<Rightarrow> jsval \<Rightarrow> jsval \<Rightarrow> jsval" where
  "js_plus rt a b =
     (if is_Str a \<or> is_Str b then Str (ToString rt a @ ToString rt b)
      else Num (num_add (ToNumber rt a) (ToNumber rt b)))"

text \<open>The global \<^verbatim>\<open>isNaN(v)\<close> converts its argument to a number first.\<close>

definition isNaN :: "runtime \<Rightarrow> jsval \<Rightarrow> bool" where
  "isNaN rt v = (ToNumber rt v = NaN)"

subsection \<open>Strings\<close>

fun starts_with :: "string \<Rightarrow> string \<Rightarrow> bool" where
  "starts_with s [] = True"
| "starts_with [] (c # cs) = False"
| "starts_with (d # ds) (c # cs) = (d = c \<and> starts_with ds cs)"

text \<open>\<^verbatim>\<open>s.includes(t)\<close>: \<open>t\<close> occurs in \<open>s\<close> as a contiguous run.\<close>

fun str_includes :: "string \<Rightarrow> string \<Rightarrow> bool" where
  "str_includes [] t = (t = [])"
| "str_includes (c # cs) t = (starts_with (c # cs) t \<or> str_includes cs t)"

text \<open>\<^verbatim>\<open>s.replace(/_/g, '')\<close>.\<close>

definition strip_underscores :: "string \<Rightarrow> string" where
  "strip_underscores s = filter (\<lambda>c. c \<noteq> CHR ''_'') s"

text \<open>\<^verbatim>\<open>parts.join(sep)\<close>.\<close>

fun join :: "string \<Rightarrow> string list \<Rightarrow> string" where
  "join sep [] = []"
| "join sep [s] = s"
| "join sep (s # t # ts) = s @ sep @ join sep (t # ts)"

section \<open>The visualization spec\<close>

datatype viztype = Line | Bar | Table

datatype dim = Date | Category | Region | Store | Store_name | Store_id | Sku

fun dim_name :: "dim \<Rightarrow> string" where
  "dim_name Date = ''date''"
| "dim_name Category = ''category''"
| "dim_name Region = ''region''"
| "dim_name Store = ''store''"
| "dim_name Store_name = ''store_name''"
| "dim_name Store_id = ''store_id''"
| "dim_name Sku = ''sku''"

text \<open>\<^verbatim>\<open>VizSpec\<close>; an optional field that is absent is \<open>None\<close>.\<close>

record vizspec =
  viz_type :: viztype
  viz_x :: "dim option"
  viz_y :: "string list option"
  viz_groupBy :: "dim list option"

text \<open>\<^verbatim>\<open>viz.groupBy || []\<close>; every test \<^verbatim>\<open>viz.groupBy && viz.groupBy.length > 0\<close> is
  \<open>groupBy_list viz \<noteq> []\<close>.\<close>

definition groupBy_list :: "vizspec \<Rightarrow> dim list" where
  "groupBy_list viz = (case viz_groupBy viz of None \<Rightarrow> [] | Some g \<Rightarrow> g)"

section \<open>Field resolution\<close>

definition dateColumns :: "string list" where
  "dateColumns = [''date'', ''month'', ''year'', ''quarter'', ''week'', ''day'']"

definition dateLike :: "runtime \<Rightarrow> string \<Rightarrow> bool" where
  "dateLike rt k =
     (str_includes (toLowerCase rt k) ''date'' \<or> str_includes (toLowerCase rt k) ''month''
      \<or> str_includes (toLowerCase rt k) ''year'')"

text \<open>
  \<^verbatim>\<open>pickXKey\<close>.  The result is a column name, \<^verbatim>\<open>null\<close> (no rows) or \<^verbatim>\<open>undefined\<close>
  (a first row without columns).  The three stages are the three blocks of the source,
  each returning as soon as it has a key.
\<close>

definition pickX_explicit :: "runtime \<Rightarrow> vizspec \<Rightarrow> obj list \<Rightarrow> string option" where
  "pickX_explicit rt viz rows =
     (case (viz_x viz, rows) of
        (Some d, r0 # _) \<Rightarrow>
          if has_key r0 (dim_name d) then Some (dim_name d)
          else if d = Date then
            (case find (has_key r0) dateColumns of
               Some c \<Rightarrow> Some c
             | None \<Rightarrow>
                 (case find (dateLike rt) (keys r0) of
                    Some k \<Rightarrow> if k \<noteq> [] then Some k else None
                  | None \<Rightarrow> None))
          else None
      | _ \<Rightarrow> None)"

definition pickX_candidates :: "vizspec \<Rightarrow> obj list \<Rightarrow> string option" where
  "pickX_candidates viz rows =
     (case rows of
        [] \<Rightarrow> None
      | r0 # _ \<Rightarrow>
          find (has_key r0)
            (map dim_name (groupBy_list viz @ (case viz_x viz of None \<Rightarrow> [] | Some d \<Rightarrow> [d]))))"

definition pickX_fallback :: "obj list \<Rightarrow> jsval" where
  "pickX_fallback rows =
     (case rows of
        [] \<Rightarrow> Null
      | r0 # _ \<Rightarrow>
          (case find (\<lambda>k. is_Str (obj_get r0 k)) (keys r0) of
             Some k \<Rightarrow> if k \<noteq> [] then Str k
                       else (case keys r0 of [] \<Rightarrow> Undefined | k0 # _ \<Rightarrow> Str k0)
           | None \<Rightarrow> (case keys r0 of [] \<Rightarrow> Undefined | k0 # _ \<Rightarrow> Str k0)))"

definition pickXKey :: "runtime \<Rightarrow> vizspec \<Rightarrow> obj list \<Rightarrow> jsval" where
  "pickXKey rt viz rows =
     (case pickX_explicit rt viz rows of
        Some k \<Rightarrow> Str k
      | None \<Rightarrow>
          (case pickX_candidates viz rows of
             Some k \<Rightarrow> Str k
           | None \<Rightarrow> pickX_fallback rows))"

text \<open>\<^verbatim>\<open>viz.y?.[0]\<close>; \<open>None\<close> is \<^verbatim>\<open>undefined\<close>.\<close>

definition yKey :: "vizspec \<Rightarrow> string option" where
  "yKey viz = (case viz_y viz of Some (k # _) \<Rightarrow> Some k | _ \<Rightarrow> None)"

text \<open>The predicate of the \<^verbatim>\<open>find\<close> that looks for the y column.\<close>

definition fuzzy :: "runtime \<Rightarrow> string \<Rightarrow> string \<Rightarrow> bool" where
  "fuzzy rt yk k =
     (str_includes (toLowerCase rt k) (toLowerCase rt yk)
      \<or> str_includes (toLowerCase rt yk) (toLowerCase rt k)
      \<or> strip_underscores (toLowerCase rt k) = strip_underscores (toLowerCase rt yk))"

text \<open>
  \<^verbatim>\<open>actualYKey\<close>, the same at both call sites: the hint itself unless it is no column of
  the first row and \<^verbatim>\<open>find\<close> returns a (non-empty) column.
\<close>

definition actualYKey :: "runtime \<Rightarrow> vizspec \<Rightarrow> obj list \<Rightarrow> string option" where
  "actualYKey rt viz rows =
     (case (yKey viz, rows) of
        (Some yk, r0 # _) \<Rightarrow>
          if yk \<noteq> [] \<and> \<not> has_key r0 yk then
            (case find (fuzzy rt yk) (keys r0) of
               Some k \<Rightarrow> if k \<noteq> [] then Some k else Some yk
             | None \<Rightarrow> Some yk)
          else Some yk
      | (yk, _) \<Rightarrow> yk)"

section \<open>The series builder\<close>

subsection \<open>Mapping the rows\<close>

text \<open>\<^verbatim>\<open>yNum\<close>: a numeric string or a number is converted, anything else becomes \<open>0\<close>.\<close>

definition yNum :: "runtime \<Rightarrow> jsval \<Rightarrow> jsnum" where
  "yNum rt yVal =
     (case yVal of
        Str s \<Rightarrow> if Number_str rt s \<noteq> NaN then Number_str rt s else Fin 0
      | Num n \<Rightarrow> n
      | _ \<Rightarrow> Fin 0)"

text \<open>The predicate of the \<^verbatim>\<open>find\<close> that looks for a groupBy dimension among a row's keys.\<close>

definition dim_matches :: "runtime \<Rightarrow> dim \<Rightarrow> string \<Rightarrow> bool" where
  "dim_matches rt d k =
     (toLowerCase rt k = toLowerCase rt (dim_name d)
      \<or> (d = Store \<and> (toLowerCase rt k = ''store_name'' \<or> toLowerCase rt k = ''store_id'')))"

definition add_dim :: "runtime \<Rightarrow> obj \<Rightarrow> obj \<Rightarrow> dim \<Rightarrow> obj" where
  "add_dim rt r result d =
     (case find (dim_matches rt d) (keys r) of
        Some dimKey \<Rightarrow>
          if dimKey \<noteq> [] \<and> obj_get r dimKey \<noteq> Undefined
          then upsert (dim_name d) (obj_get r dimKey) result
          else result
      | None \<Rightarrow> result)"

text \<open>The callback of \<^verbatim>\<open>rows.map\<close>; \<^verbatim>\<open>r[xKey!]\<close> reads the property named by the string
  form of \<open>xKey\<close>.\<close>

definition map_row :: "runtime \<Rightarrow> vizspec \<Rightarrow> jsval \<Rightarrow> string \<Rightarrow> obj \<Rightarrow> obj" where
  "map_row rt viz xKey yk r =
     foldl (add_dim rt r)
       [(''x'', js_coalesce (obj_get r (ToString rt xKey)) (Str ''Unknown'')),
        (''y'', js_coalesce (Num (yNum rt (obj_get r yk))) (Num (Fin 0)))]
       (groupBy_list viz)"

text \<open>The callback of \<^verbatim>\<open>.filter\<close>.\<close>

definition valid_point :: "runtime \<Rightarrow> obj \<Rightarrow> bool" where
  "valid_point rt d =
     (obj_get d ''y'' \<noteq> Undefined \<and> obj_get d ''y'' \<noteq> Null \<and> \<not> isNaN rt (obj_get d ''y''))"

definition mapped :: "runtime \<Rightarrow> vizspec \<Rightarrow> jsval \<Rightarrow> string \<Rightarrow> obj list \<Rightarrow> obj list" where
  "mapped rt viz xKey yk rows = filter (valid_point rt) (map (map_row rt viz xKey yk) rows)"

subsection \<open>Aggregation by the groupBy dimensions (no x axis)\<close>

definition groupKey :: "runtime \<Rightarrow> dim list \<Rightarrow> obj \<Rightarrow> string" where
  "groupKey rt gb d =
     join ''|'' (map (\<lambda>g. ToString rt (js_coalesce (obj_get d (dim_name g)) (Str ''Unknown''))) gb)"

text \<open>\<^verbatim>\<open>a.y = (a.y || 0) + (d.y || 0)\<close>, also used on a pivoted column.\<close>

definition add_y :: "runtime \<Rightarrow> jsval \<Rightarrow> obj \<Rightarrow> jsval" where
  "add_y rt old d = js_plus rt (js_or old (Num (Fin 0))) (js_or (obj_get d ''y'') (Num (Fin 0)))"

text \<open>One round of \<^verbatim>\<open>mapped.forEach\<close> on the map \<^verbatim>\<open>grouped\<close>; \<open>g\<close> is \<^verbatim>\<open>viz.groupBy[0]\<close>.\<close>

definition group_step :: "runtime \<Rightarrow> dim \<Rightarrow> dim list \<Rightarrow> (string \<times> obj) list \<Rightarrow> obj \<Rightarrow> (string \<times> obj) list" where
  "group_step rt g gs grouped d =
     (let gk = groupKey rt (g # gs) d in
      case map_of grouped gk of
        Some existing \<Rightarrow>
          upsert gk (upsert ''y'' (add_y rt (obj_get existing ''y'') d) existing) grouped
      | None \<Rightarrow>
          upsert gk (upsert ''x'' (js_coalesce (obj_get d (dim_name g)) (Str gk)) d) grouped)"

definition aggregate :: "runtime \<Rightarrow> dim \<Rightarrow> dim list \<Rightarrow> obj list \<Rightarrow> obj list" where
  "aggregate rt g gs m = map snd (foldl (group_step rt g gs) [] m)"

subsection \<open>Pivot (x axis and groupBy)\<close>

definition pivot_dim :: "runtime \<Rightarrow> obj \<Rightarrow> obj \<Rightarrow> dim \<Rightarrow> obj" where
  "pivot_dim rt d xEntry g =
     (if obj_get d (dim_name g) \<noteq> Undefined then
        (let dimValue = ToString rt (obj_get d (dim_name g))
         in upsert dimValue (add_y rt (obj_get xEntry dimValue) d) xEntry)
      else xEntry)"

text \<open>One round of \<^verbatim>\<open>mapped.forEach\<close> on the map \<^verbatim>\<open>xMap\<close>.  After the insertion the entry
  is there, so the \<open>None\<close> case below is never taken.\<close>

definition pivot_step :: "runtime \<Rightarrow> dim list \<Rightarrow> (string \<times> obj) list \<Rightarrow> obj \<Rightarrow> (string \<times> obj) list" where
  "pivot_step rt gb xMap d =
     (let xStr = ToString rt (obj_get d ''x'');
          xMap1 = (if has_key xMap xStr then xMap else upsert xStr [(''x'', Str xStr)] xMap);
          xEntry = (case map_of xMap1 xStr of Some e \<Rightarrow> e | None \<Rightarrow> [])
      in upsert xStr (foldl (pivot_dim rt d) xEntry gb) xMap1)"

definition pivot :: "runtime \<Rightarrow> dim list \<Rightarrow> obj list \<Rightarrow> obj list" where
  "pivot rt gb m = map snd (foldl (pivot_step rt gb) [] m)"

subsection \<open>Sorting\<close>

text \<open>
  \<^verbatim>\<open>Array.prototype.sort\<close> with a comparator: \<open>a\<close> goes behind \<open>b\<close> when the comparator
  is positive, and a comparator result \<open>NaN\<close> counts as \<open>0\<close>.  The sort is stable.  The
  language fixes the result only for a consistent comparator; the model is the stable
  insertion sort, which is the result every engine gives for a consistent one.
\<close>

fun insert_by :: "('a \<Rightarrow> 'a \<Rightarrow> jsnum) \<Rightarrow> 'a \<Rightarrow> 'a list \<Rightarrow> 'a list" where
  "insert_by cmp a [] = [a]"
| "insert_by cmp a (b # bs) =
     (if num_less (Fin 0) (cmp a b) then b # insert_by cmp a bs else a # b # bs)"

definition js_sort :: "('a \<Rightarrow> 'a \<Rightarrow> jsnum) \<Rightarrow> 'a list \<Rightarrow> 'a list" where
  "js_sort cmp xs = foldr (insert_by cmp) xs []"

text \<open>\<^verbatim>\<open>TimeClip\<close>: the time value of \<^verbatim>\<open>new Date(n)\<close> for a number \<open>n\<close>.\<close>

definition TimeClip :: "jsnum \<Rightarrow> jsnum" where
  "TimeClip n =
     (case n of
        Fin t \<Rightarrow> if \<bar>t\<bar> > 8640000000000000 then NaN
                 else Fin (of_int (if 0 \<le> t then \<lfloor>t\<rfloor> else \<lceil>t\<rceil>))
      | _ \<Rightarrow> NaN)"

definition newDate_getTime :: "runtime \<Rightarrow> jsval \<Rightarrow> jsnum" where
  "newDate_getTime rt v = (case v of Str s \<Rightarrow> Date_getTime rt s | _ \<Rightarrow> TimeClip (ToNumber rt v))"

definition locale_cmp :: "runtime \<Rightarrow> obj \<Rightarrow> obj \<Rightarrow> jsnum" where
  "locale_cmp rt a b = localeCompare rt (ToString rt (obj_get a ''x'')) (ToString rt (obj_get b ''x''))"

text \<open>
  The \<^verbatim>\<open>try\<close> block of the date comparator: \<open>Inl\<close> would be an exception.  Neither
  \<^verbatim>\<open>new Date(v)\<close> nor \<^verbatim>\<open>getTime()\<close> throws on a primitive value (a string that is no date
  gives the time value \<open>NaN\<close>), so the block always completes.
\<close>

definition date_try :: "runtime \<Rightarrow> obj \<Rightarrow> obj \<Rightarrow> unit + jsnum" where
  "date_try rt a b =
     Inr (num_sub (newDate_getTime rt (obj_get a ''x'')) (newDate_getTime rt (obj_get b ''x'')))"

definition date_cmp :: "runtime \<Rightarrow> obj \<Rightarrow> obj \<Rightarrow> jsnum" where
  "date_cmp rt a b = (case date_try rt a b of Inr v \<Rightarrow> v | Inl _ \<Rightarrow> locale_cmp rt a b)"

definition temporal :: "runtime \<Rightarrow> vizspec \<Rightarrow> jsval \<Rightarrow> bool" where
  "temporal rt viz xKey =
     (viz_x viz = Some Date
      \<or> (case xKey of
           Str k \<Rightarrow> k \<noteq> [] \<and> list_ex (\<lambda>c. str_includes (toLowerCase rt k) c) [''date'', ''month'', ''year'']
         | _ \<Rightarrow> False))"

definition sort_pivot :: "runtime \<Rightarrow> vizspec \<Rightarrow> jsval \<Rightarrow> obj list \<Rightarrow> obj list" where
  "sort_pivot rt viz xKey data =
     (if temporal rt viz xKey then js_sort (date_cmp rt) data else js_sort (locale_cmp rt) data)"

subsection \<open>The two call sites\<close>

text \<open>\<^verbatim>\<open>data\<close> of \<^verbatim>\<open>ChartOrTable\<close> (chart mode).\<close>

definition buildSeries :: "runtime \<Rightarrow> vizspec \<Rightarrow> obj list \<Rightarrow> obj list" where
  "buildSeries rt viz rows =
     (let xKey = pickXKey rt viz rows in
      case actualYKey rt viz rows of
        Some yk \<Rightarrow>
          if rows \<noteq> [] \<and> yk \<noteq> [] then
            (let m = mapped rt viz xKey yk rows in
             case groupBy_list viz of
               [] \<Rightarrow> m
             | g # gs \<Rightarrow>
                 if \<not> truthy xKey \<or> viz_x viz = None then aggregate rt g gs m
                 else if truthy xKey \<and> groupBy_list viz \<noteq> []
                 then sort_pivot rt viz xKey (pivot rt (g # gs) m)
                 else m)
          else []
      | None \<Rightarrow> [])"

text \<open>\<^verbatim>\<open>data\<close> of \<^verbatim>\<open>FullscreenChart\<close>.\<close>

definition buildSeries_fs :: "runtime \<Rightarrow> vizspec \<Rightarrow> obj list \<Rightarrow> obj list" where
  "buildSeries_fs rt viz rows =
     (let xKey = pickXKey rt viz rows in
      case actualYKey rt viz rows of
        Some yk \<Rightarrow>
          if rows \<noteq> [] \<and> yk \<noteq> [] then
            (let m = mapped rt viz xKey yk rows in
             case groupBy_list viz of
               [] \<Rightarrow> m
             | g # gs \<Rightarrow>
                 if \<not> truthy xKey \<or> viz_x viz = None then aggregate rt g gs m
                 else sort_pivot rt viz xKey (pivot rt (g # gs) m))
          else []
      | None \<Rightarrow> [])"

section \<open>The ranked summary\<close>

record ranked =
  item_label :: string
  item_value :: jsval

definition truthy_key :: "string option \<Rightarrow> bool" where
  "truthy_key k = (case k of Some s \<Rightarrow> s \<noteq> [] | None \<Rightarrow> False)"

text \<open>\<^verbatim>\<open>displayYKey = actualYKey || yKey\<close>.\<close>

definition displayYKey :: "runtime \<Rightarrow> vizspec \<Rightarrow> obj list \<Rightarrow> string option" where
  "displayYKey rt viz rows =
     (if truthy_key (actualYKey rt viz rows) then actualYKey rt viz rows else yKey viz)"

text \<open>\<^verbatim>\<open>aggregated.get(k) || 0\<close> on a map of numbers.\<close>

definition get_or0 :: "(string \<times> jsnum) list \<Rightarrow> string \<Rightarrow> jsnum" where
  "get_or0 m k = (case map_of m k of Some n \<Rightarrow> if n = NaN then Fin 0 else n | None \<Rightarrow> Fin 0)"

text \<open>One round of \<^verbatim>\<open>rows.forEach\<close> on the map \<^verbatim>\<open>aggregated\<close>.\<close>

definition rank_step :: "runtime \<Rightarrow> string \<Rightarrow> string \<Rightarrow> (string \<times> jsnum) list \<Rightarrow> obj \<Rightarrow> (string \<times> jsnum) list" where
  "rank_step rt groupByColumn dyk aggregated r =
     (let groupValue = ToString rt (js_coalesce (obj_get r groupByColumn) (Str ''Unknown''));
          yValue = ToNumber rt (js_coalesce (obj_get r dyk) (Num (Fin 0)))
      in upsert groupValue (num_add (get_or0 aggregated groupValue) yValue) aggregated)"

definition by_value_desc :: "runtime \<Rightarrow> ranked \<Rightarrow> ranked \<Rightarrow> jsnum" where
  "by_value_desc rt a b = num_sub (ToNumber rt (item_value b)) (ToNumber rt (item_value a))"

definition num_or0 :: "jsval \<Rightarrow> jsnum" where
  "num_or0 v = (case v of Num n \<Rightarrow> n | _ \<Rightarrow> Fin 0)"

definition by_number_desc :: "ranked \<Rightarrow> ranked \<Rightarrow> jsnum" where
  "by_number_desc a b = num_sub (num_or0 (item_value b)) (num_or0 (item_value a))"

text \<open>The label of a row: \<^verbatim>\<open>xKey ? String(r[xKey] ?? 'N/A') : other\<close>.\<close>

definition row_label :: "runtime \<Rightarrow> jsval \<Rightarrow> string \<Rightarrow> obj \<Rightarrow> string" where
  "row_label rt xKey other r =
     (if truthy xKey then ToString rt (js_coalesce (obj_get r (ToString rt xKey)) (Str ''N/A''))
      else other)"

text \<open>\<^verbatim>\<open>displayYKey ? (r[displayYKey] ?? dflt) : dflt\<close>.\<close>

definition row_value :: "string option \<Rightarrow> jsval \<Rightarrow> obj \<Rightarrow> jsval" where
  "row_value dyk dflt r =
     (case dyk of
        Some k \<Rightarrow> if k \<noteq> [] then js_coalesce (obj_get r k) dflt else dflt
      | None \<Rightarrow> dflt)"

text \<open>\<^verbatim>\<open>displayData\<close> of the \<^verbatim>\<open>TopList\<close> inside \<^verbatim>\<open>ChartOrTable\<close>.\<close>

definition TopList :: "runtime \<Rightarrow> vizspec \<Rightarrow> obj list \<Rightarrow> ranked list" where
  "TopList rt viz rows =
     (let xKey = pickXKey rt viz rows; dyk = displayYKey rt viz rows in
      case (viz_x viz = Some Date, groupBy_list viz, rows) of
        (True, g # gs, r0 # rs) \<Rightarrow>
          (case (find (dim_matches rt g) (keys r0), dyk) of
             (Some groupByColumn, Some k) \<Rightarrow>
               if groupByColumn \<noteq> [] \<and> k \<noteq> [] then
                 take 10
                   (js_sort (by_value_desc rt)
                      (map (\<lambda>(l, v). \<lparr>item_label = l, item_value = Num v\<rparr>)
                         (foldl (rank_step rt groupByColumn k) [] rows)))
               else
                 map (\<lambda>(i, r). \<lparr>item_label = row_label rt xKey (''Row '' @ String_num rt (Fin (of_nat (i + 1)))) r,
                                 item_value = row_value dyk (Str ''N/A'') r\<rparr>)
                   (enumerate 0 (take 10 rows))
           | _ \<Rightarrow>
               map (\<lambda>(i, r). \<lparr>item_label = row_label rt xKey (''Row '' @ String_num rt (Fin (of_nat (i + 1)))) r,
                               item_value = row_value dyk (Str ''N/A'') r\<rparr>)
                 (enumerate 0 (take 10 rows)))
      | _ \<Rightarrow>
          take 10
            (js_sort by_number_desc
               (map (\<lambda>r. \<lparr>item_label = row_label rt xKey ''N/A'' r,
                          item_value = row_value dyk (Num (Fin 0)) r\<rparr>) rows)))"

text \<open>The \<^verbatim>\<open>TopList\<close> inside \<^verbatim>\<open>FullscreenChart\<close>, each cell as the pair it renders
  (\<^verbatim>\<open>String(xVal)\<close> and \<^verbatim>\<open>yVal\<close>).\<close>

definition TopList_fs :: "runtime \<Rightarrow> vizspec \<Rightarrow> obj list \<Rightarrow> ranked list" where
  "TopList_fs rt viz rows =
     (let xKey = pickXKey rt viz rows; dyk = displayYKey rt viz rows in
      map (\<lambda>r. \<lparr>item_label = ToString rt (if truthy xKey
                                            then js_coalesce (obj_get r (ToString rt xKey)) (Str ''N/A'')
                                            else Str ''N/A''),
                 item_value = row_value dyk (Str ''N/A'') r\<rparr>)
        (take 20 rows))"

section \<open>What the two components render\<close>

text \<open>The chart widgets themselves are not modelled: a chart is its \<^verbatim>\<open>data\<close> and its
  top list.\<close>

datatype view =
    NoRows
  | TableView "string list" "string list list"
  | NoData string
  | ChartView viztype "obj list" "ranked list"

definition ChartOrTable :: "runtime \<Rightarrow> vizspec \<Rightarrow> obj list \<Rightarrow> view" where
  "ChartOrTable rt viz rows =
     (if viz_type viz = Table then
        (case rows of
           [] \<Rightarrow> NoRows
         | r0 # _ \<Rightarrow>
             TableView (keys r0)
               (map (\<lambda>r. map (\<lambda>c. ToString rt (obj_get r c)) (keys r0)) (take 50 rows)))
      else if buildSeries rt viz rows = [] then
        NoData (''No valid data points found. Available keys: ''
                @ (case rows of [] \<Rightarrow> ''none'' | r0 # _ \<Rightarrow> join '', '' (keys r0)))
      else ChartView (if viz_type viz = Line then Line else Bar)
             (buildSeries rt viz rows) (TopList rt viz rows))"

text \<open>\<^verbatim>\<open>FullscreenChart\<close>; \<open>None\<close> is the \<^verbatim>\<open>null\<close> it returns without data.\<close>

definition FullscreenChart :: "runtime \<Rightarrow> vizspec \<Rightarrow> obj list \<Rightarrow> view option" where
  "FullscreenChart rt viz rows =
     (if buildSeries_fs rt viz rows = [] then None
      else Some (ChartView (if viz_type viz = Line then Line else Bar)
                   (buildSeries_fs rt viz rows) (TopList_fs rt viz rows)))"

section \<open>A reference runtime\<close>

text \<open>
  To run the transform on concrete rows, the runtime's functions are written out for
  ASCII input: numeric literals as the language's string-to-number grammar reads them
  (exact, not rounded to a double), numbers printed in positional decimal notation (the
  form \<^verbatim>\<open>String\<close> gives between \<open>1e-6\<close> and \<open>1e21\<close>), the date-only forms of the
  standard date-time format (\<^verbatim>\<open>YYYY\<close>, \<^verbatim>\<open>YYYY-MM\<close>, \<^verbatim>\<open>YYYY-MM-DD\<close>, read as UTC; every
  other string is no date), comparison by code units, and lower-casing of \<open>A\<close> to \<open>Z\<close>.
\<close>

definition is_digit :: "char \<Rightarrow> bool" where
  "is_digit c = (48 \<le> (of_char c :: nat) \<and> (of_char c :: nat) \<le> 57)"

definition digit_val :: "char \<Rightarrow> nat" where
  "digit_val c = of_char c - 48"

definition nat_of_digits :: "string \<Rightarrow> nat" where
  "nat_of_digits ds = foldl (\<lambda>a c. 10 * a + digit_val c) 0 ds"

definition ascii_lower :: "char \<Rightarrow> char" where
  "ascii_lower c =
     (if 65 \<le> (of_char c :: nat) \<and> (of_char c :: nat) \<le> 90 then char_of ((of_char c :: nat) + 32) else c)"

definition is_space :: "char \<Rightarrow> bool" where
  "is_space c = ((of_char c :: nat) \<in> {9, 10, 11, 12, 13, 32})"

definition trim :: "string \<Rightarrow> string" where
  "trim s = rev (dropWhile is_space (rev (dropWhile is_space s)))"

text \<open>The exponent part: nothing, or \<open>e\<close>, an optional sign and digits.\<close>

definition parse_exponent :: "string \<Rightarrow> int option" where
  "parse_exponent s =
     (case s of
        [] \<Rightarrow> Some 0
      | c # cs \<Rightarrow>
          if c = CHR ''e'' \<or> c = CHR ''E'' then
            (case cs of
               [] \<Rightarrow> None
             | d # ds \<Rightarrow>
                 if d = CHR ''-'' then
                   (if ds \<noteq> [] \<and> list_all is_digit ds then Some (- int (nat_of_digits ds)) else None)
                 else if d = CHR ''+'' then
                   (if ds \<noteq> [] \<and> list_all is_digit ds then Some (int (nat_of_digits ds)) else None)
                 else if list_all is_digit cs then Some (int (nat_of_digits cs)) else None)
          else None)"

definition scale10 :: "rat \<Rightarrow> int \<Rightarrow> rat" where
  "scale10 q e = (if 0 \<le> e then q * 10 ^ nat e else q / 10 ^ nat (- e))"

text \<open>An unsigned decimal literal: \<open>Infinity\<close>, or digits with an optional fraction and
  exponent, at least one digit before or after the point.\<close>

definition parse_unsigned :: "string \<Rightarrow> jsnum" where
  "parse_unsigned s =
     (if s = ''Infinity'' then PInf
      else
        (let ip = takeWhile is_digit s;
             r1 = dropWhile is_digit s;
             dotted = (r1 \<noteq> [] \<and> hd r1 = CHR ''.'');
             fp = (if dotted then takeWhile is_digit (tl r1) else []);
             r2 = (if dotted then dropWhile is_digit (tl r1) else r1)
         in if ip = [] \<and> fp = [] then NaN
            else
              (case parse_exponent r2 of
                 None \<Rightarrow> NaN
               | Some e \<Rightarrow>
                   Fin (scale10 (of_nat (nat_of_digits ip)
                                 + of_nat (nat_of_digits fp) / 10 ^ length fp) e))))"

definition radix_val :: "char \<Rightarrow> nat" where
  "radix_val c =
     (let n = (of_char c :: nat) in
      if 48 \<le> n \<and> n \<le> 57 then n - 48
      else if 97 \<le> n \<and> n \<le> 102 then n - 87
      else if 65 \<le> n \<and> n \<le> 70 then n - 55
      else 99)"

definition parse_radix :: "nat \<Rightarrow> string \<Rightarrow> jsnum" where
  "parse_radix b ds =
     (if ds \<noteq> [] \<and> list_all (\<lambda>c. radix_val c < b) ds
      then Fin (of_nat (foldl (\<lambda>a c. b * a + radix_val c) 0 ds))
      else NaN)"

definition ref_Number :: "string \<Rightarrow> jsnum" where
  "ref_Number s =
     (let t = trim s in
      case t of
        [] \<Rightarrow> Fin 0
      | c # cs \<Rightarrow>
          if c = CHR ''0'' \<and> cs \<noteq> [] \<and> hd cs \<in> {CHR ''x'', CHR ''X''} then parse_radix 16 (tl cs)
          else if c = CHR ''0'' \<and> cs \<noteq> [] \<and> hd cs \<in> {CHR ''o'', CHR ''O''} then parse_radix 8 (tl cs)
          else if c = CHR ''0'' \<and> cs \<noteq> [] \<and> hd cs \<in> {CHR ''b'', CHR ''B''} then parse_radix 2 (tl cs)
          else if c = CHR ''+'' then parse_unsigned cs
          else if c = CHR ''-'' then num_neg (parse_unsigned cs)
          else parse_unsigned t)"

fun digits_of_nat :: "nat \<Rightarrow> string" where
  "digits_of_nat n =
     (if n < 10 then [char_of (48 + n)] else digits_of_nat (n div 10) @ [char_of (48 + n mod 10)])"

fun frac_digits :: "nat \<Rightarrow> nat \<Rightarrow> nat \<Rightarrow> string" where
  "frac_digits 0 num den = []"
| "frac_digits (Suc k) num den =
     (if num = 0 then []
      else char_of (48 + (num * 10) div den) # frac_digits k ((num * 10) mod den) den)"

definition ref_String :: "jsnum \<Rightarrow> string" where
  "ref_String n =
     (case n of
        NaN \<Rightarrow> ''NaN''
      | PInf \<Rightarrow> ''Infinity''
      | NInf \<Rightarrow> ''-Infinity''
      | Fin q \<Rightarrow>
          (let a = fst (quotient_of q); d = nat (snd (quotient_of q)); m = nat \<bar>a\<bar>
           in (if a < 0 then ''-'' else [])
              @ digits_of_nat (m div d)
              @ (if m mod d = 0 then [] else CHR ''.'' # frac_digits 20 (m mod d) d)))"

text \<open>Days from the epoch to the first day of a year, as the standard computes them.\<close>

definition DayFromYear :: "int \<Rightarrow> int" where
  "DayFromYear yr =
     365 * (yr - 1970) + (yr - 1969) div 4 - (yr - 1901) div 100 + (yr - 1601) div 400"

definition month_lengths :: "int \<Rightarrow> int list" where
  "month_lengths yr =
     [31, if (yr mod 4 = 0 \<and> yr mod 100 \<noteq> 0) \<or> yr mod 400 = 0 then 29 else 28,
      31, 30, 31, 30, 31, 31, 30, 31, 30, 31]"

definition utc_ms :: "nat \<Rightarrow> nat \<Rightarrow> nat \<Rightarrow> jsnum" where
  "utc_ms yr mo dy =
     (if 1 \<le> mo \<and> mo \<le> 12 \<and> 1 \<le> dy \<and> int dy \<le> month_lengths (int yr) ! (mo - 1)
      then Fin (of_int ((DayFromYear (int yr) + sum_list (take (mo - 1) (month_lengths (int yr)))
                         + int dy - 1) * 86400000))
      else NaN)"

definition ref_Date :: "string \<Rightarrow> jsnum" where
  "ref_Date s =
     (let yy = take 4 s; r = drop 4 s in
      if length yy = 4 \<and> list_all is_digit yy then
        (if r = [] then utc_ms (nat_of_digits yy) 1 1
         else if length r = 3 \<and> hd r = CHR ''-'' \<and> list_all is_digit (tl r)
           then utc_ms (nat_of_digits yy) (nat_of_digits (tl r)) 1
         else if length r = 6 \<and> hd r = CHR ''-'' \<and> list_all is_digit (take 2 (tl r))
                 \<and> r ! 3 = CHR ''-'' \<and> list_all is_digit (drop 4 r)
           then utc_ms (nat_of_digits yy) (nat_of_digits (take 2 (tl r))) (nat_of_digits (drop 4 r))
         else NaN)
      else NaN)"

fun ref_compare :: "string \<Rightarrow> string \<Rightarrow> jsnum" where
  "ref_compare [] [] = Fin 0"
| "ref_compare [] (b # bs) = Fin (- 1)"
| "ref_compare (a # as) [] = Fin 1"
| "ref_compare (a # as) (b # bs) =
     (if (of_char a :: nat) < of_char b then Fin (- 1)
      else if (of_char b :: nat) < of_char a then Fin 1
      else ref_compare as bs)"

definition ref_runtime :: runtime where
  "ref_runtime =
     \<lparr>Number_str = ref_Number, String_num = ref_String, Date_getTime = ref_Date,
      localeCompare = ref_compare, toLowerCase = map ascii_lower\<rparr>"

section \<open>Inputs used in the examples\<close>

definition table_viz :: vizspec where
  "table_viz = \<lparr>viz_type = Table, viz_x = None, viz_y = None, viz_groupBy = None\<rparr>"

definition sixty_rows :: "obj list" where
  "sixty_rows = map (\<lambda>i. [(''n'', Num (Fin (of_nat i)))]) [0..<60]"



definition flat_viz :: vizspec where
  "flat_viz = \<lparr>viz_type = Bar, viz_x = Some Region, viz_y = Some [''sales''], viz_groupBy = None\<rparr>"

definition mixed_rows :: "obj list" where
  "mixed_rows = [[(''region'', Str ''North''), (''sales'', Str ''12.5'')],
                 [(''region'', Str ''South''), (''sales'', Num (Fin 7))],
                 [(''region'', Str ''East''), (''sales'', Str ''n/a'')],
                 [(''region'', Str ''West''), (''sales'', Null)],
                 [(''region'', Str ''Mid''), (''sales'', Num NaN)]]"


definition inf_rows :: "obj list" where
  "inf_rows = [[(''region'', Str ''North''), (''sales'', Str ''Infinity'')]]"

definition pivot_viz :: vizspec where
  "pivot_viz = \<lparr>viz_type = Line, viz_x = Some Date, viz_y = Some [''sales''], viz_groupBy = Some [Region]\<rparr>"

definition inf_pivot_rows :: "obj list" where
  "inf_pivot_rows = [[(''month'', Str ''2024-01''), (''region'', Str ''North''), (''sales'', Str ''Infinity'')],
                     [(''month'', Str ''2024-01''), (''region'', Str ''North''), (''sales'', Str ''-Infinity'')]]"

definition unresolved_viz :: vizspec where
  "unresolved_viz = \<lparr>viz_type = Bar, viz_x = Some Region, viz_y = Some [''profit''], viz_groupBy = None\<rparr>"

definition sales_rows :: "obj list" where
  "sales_rows = [[(''region'', Str ''North''), (''sales'', Num (Fin 1))],
                 [(''region'', Str ''South''), (''sales'', Num (Fin 2))]]"

definition no_y_viz :: vizspec where
  "no_y_viz = \<lparr>viz_type = Bar, viz_x = Some Region, viz_y = None, viz_groupBy = None\<rparr>"

definition late_rows :: "obj list" where
  "late_rows = [[(''week'', Str ''late''), (''region'', Str ''North''), (''sales'', Num (Fin 1))],
                [(''week'', Str ''early''), (''region'', Str ''North''), (''sales'', Num (Fin 2))]]"





section \<open>Objects and the row mapping\<close>

lemma map_of_upsert: "map_of (upsert k v ob) = (map_of ob)(k \<mapsto> v)"
  by (induction ob) (auto simp: fun_eq_iff)

lemma obj_get_upsert: "obj_get (upsert k v ob) k' = (if k' = k then v else obj_get ob k')"
  by (simp add: obj_get_def map_of_upsert)

lemma dim_name_not_xy:
  "dim_name d \<noteq> ''x''" "dim_name d \<noteq> ''y''" "''x'' \<noteq> dim_name d" "''y'' \<noteq> dim_name d"
  by (cases d; simp)+

lemma obj_get_pair:
  "obj_get [(''x'', a), (''y'', b)] ''x'' = a" "obj_get [(''x'', a), (''y'', b)] ''y'' = b"
  by (simp_all add: obj_get_def)

lemma add_dim_y: "obj_get (add_dim rt r res d) ''y'' = obj_get res ''y''"
  by (auto simp: add_dim_def obj_get_upsert dim_name_not_xy split: option.splits)

lemma add_dim_x: "obj_get (add_dim rt r res d) ''x'' = obj_get res ''x''"
  by (auto simp: add_dim_def obj_get_upsert dim_name_not_xy split: option.splits)

lemma foldl_add_dim_y: "obj_get (foldl (add_dim rt r) res gb) ''y'' = obj_get res ''y''"
  by (induction gb arbitrary: res) (simp_all add: add_dim_y)

lemma foldl_add_dim_x: "obj_get (foldl (add_dim rt r) res gb) ''x'' = obj_get res ''x''"
  by (induction gb arbitrary: res) (simp_all add: add_dim_x)

lemma map_row_y: "obj_get (map_row rt viz xKey yk r) ''y'' = Num (yNum rt (obj_get r yk))"
  by (simp add: map_row_def foldl_add_dim_y obj_get_pair js_coalesce_def)

lemma yNum_NaN_iff: "yNum rt v = NaN \<longleftrightarrow> v = Num NaN"
  by (cases v) (auto simp: yNum_def)

lemma valid_point_map_row:
  "valid_point rt (map_row rt viz xKey yk r) \<longleftrightarrow> obj_get r yk \<noteq> Num NaN"
  by (simp add: valid_point_def map_row_y isNaN_def yNum_NaN_iff)

lemma mapped_eq:
  "mapped rt viz xKey yk rows =
     map (map_row rt viz xKey yk) (filter (\<lambda>r. obj_get r yk \<noteq> Num NaN) rows)"
  by (simp add: mapped_def filter_map comp_def valid_point_map_row)

section \<open>Table mode\<close>

text \<open>
  Claim C10.  In table mode with at least one row, the component renders a table whose
  header is the list of columns of the first row and whose body has one line for each of
  the first 50 rows and no more: line \<open>i\<close> is row \<open>i\<close> of the input, read at the columns
  of the first row, so the rows from index 50 on are left out.
\<close>

theorem table_first_50:
  assumes "viz_type viz = Table" and "rows \<noteq> []"
  shows "\<exists>body. ChartOrTable rt viz rows = TableView (keys (hd rows)) body
           \<and> length body = min 50 (length rows)
           \<and> (\<forall>i < length body.
                 body ! i = map (\<lambda>c. ToString rt (obj_get (rows ! i) c)) (keys (hd rows)))"
proof -
  obtain r0 rs where rows: "rows = r0 # rs"
    using assms(2) by (cases rows) auto
  let ?body = "map (\<lambda>r. map (\<lambda>c. ToString rt (obj_get r c)) (keys r0)) (take 50 rows)"
  have "ChartOrTable rt viz rows = TableView (keys (hd rows)) ?body"
    using assms(1) by (simp add: ChartOrTable_def rows)
  moreover have "length ?body = min 50 (length rows)"
    by (simp add: min.commute)
  moreover have "hd rows = r0"
    by (simp add: rows)
  then have "\<forall>i < length ?body.
      ?body ! i = map (\<lambda>c. ToString rt (obj_get (rows ! i) c)) (keys (hd rows))"
    by simp
  ultimately show ?thesis by blast
qed

theorem table_first_50_witness:
  "viz_type table_viz = Table \<and> sixty_rows \<noteq> [] \<and> length sixty_rows = 60
   \<and> (\<exists>body. ChartOrTable ref_runtime table_viz sixty_rows = TableView (keys (hd sixty_rows)) body
           \<and> length body = 50
           \<and> (\<forall>i < length body.
                 body ! i = map (\<lambda>c. ToString ref_runtime (obj_get (sixty_rows ! i) c))
                              (keys (hd sixty_rows))))"
proof -
  have h1: "viz_type table_viz = Table" by (simp add: table_viz_def)
  have h2: "sixty_rows \<noteq> []" by (simp add: sixty_rows_def)
  have h3: "length sixty_rows = 60" by (simp add: sixty_rows_def)
  show ?thesis using table_first_50 [OF h1 h2, of ref_runtime] h1 h2 h3 by simp
qed

section \<open>Resolving the y column\<close>


lemma actualYKey_cases:
  assumes "viz_y viz = Some (yk # ys)" and "yk \<noteq> []" and "rows = r0 # rs" and "\<not> has_key r0 yk"
  shows "actualYKey rt viz rows =
           (case find (fuzzy rt yk) (keys r0) of
              Some k \<Rightarrow> if k \<noteq> [] then Some k else Some yk
            | None \<Rightarrow> Some yk)"
  using assms by (simp add: actualYKey_def yKey_def)





section \<open>Coercion of the y value\<close>

lemma yNum_simps:
  "yNum rt (Num n) = n"
  "Number_str rt s \<noteq> NaN \<Longrightarrow> yNum rt (Str s) = Number_str rt s"
  "Number_str rt s = NaN \<Longrightarrow> yNum rt (Str s) = Fin 0"
  "yNum rt Null = Fin 0" "yNum rt Undefined = Fin 0" "yNum rt (Bool b) = Fin 0"
  by (simp_all add: yNum_def)

lemma buildSeries_flat:
  assumes "groupBy_list viz = []" and "rows \<noteq> []" and "actualYKey rt viz rows = Some yk" and "yk \<noteq> []"
  shows "buildSeries rt viz rows = mapped rt viz (pickXKey rt viz rows) yk rows"
  using assms by (simp add: buildSeries_def Let_def)





section \<open>Numeric safety of the series\<close>

lemma mapped_y_number:
  "d \<in> set (mapped rt viz xKey yk rows) \<Longrightarrow> \<exists>n. obj_get d ''y'' = Num n \<and> n \<noteq> NaN"
  by (auto simp: mapped_eq map_row_y yNum_NaN_iff)

lemma buildSeries_flat_cases:
  "groupBy_list viz = [] \<Longrightarrow>
     buildSeries rt viz rows = [] \<or> (\<exists>yk. buildSeries rt viz rows = mapped rt viz (pickXKey rt viz rows) yk rows)"
  by (auto simp: buildSeries_def Let_def split: option.splits)

text \<open>
  Claim C5, as amended.  Every point that the row mapping produces has a y that is a
  number other than \<open>NaN\<close>, for all rows and every spec; without groupBy these points
  are the whole output of the series builder.  The y may be an infinity: the filter
  tests \<^verbatim>\<open>isNaN\<close>, not finiteness.
\<close>

theorem flat_series_not_NaN:
  "(\<forall>d \<in> set (mapped rt viz xKey yk rows). \<exists>n. obj_get d ''y'' = Num n \<and> n \<noteq> NaN)
   \<and> (groupBy_list viz = [] \<longrightarrow>
        (\<forall>d \<in> set (buildSeries rt viz rows). \<exists>n. obj_get d ''y'' = Num n \<and> n \<noteq> NaN))"
proof (intro conjI impI ballI)
  fix d assume "d \<in> set (mapped rt viz xKey yk rows)"
  then show "\<exists>n. obj_get d ''y'' = Num n \<and> n \<noteq> NaN" by (rule mapped_y_number)
next
  fix d assume g: "groupBy_list viz = []" and d: "d \<in> set (buildSeries rt viz rows)"
  from buildSeries_flat_cases [OF g, of rt rows] d
  obtain yk where "d \<in> set (mapped rt viz (pickXKey rt viz rows) yk rows)" by auto
  then show "\<exists>n. obj_get d ''y'' = Num n \<and> n \<noteq> NaN" by (rule mapped_y_number)
qed

text \<open>
  Against C5 as stated: the string \<open>Infinity\<close> as a y value gives a point whose y is
  the infinity, and a pivoted column that adds \<open>Infinity\<close> and \<open>-Infinity\<close> holds \<open>NaN\<close>.
\<close>

theorem infinite_y_in_series:
  "buildSeries ref_runtime flat_viz inf_rows = [[(''x'', Str ''North''), (''y'', Num PInf)]]
   \<and> buildSeries ref_runtime pivot_viz inf_pivot_rows = [[(''x'', Str ''2024-01''), (''North'', Num NaN)]]"
  by code_simp

theorem flat_series_not_NaN_witness:
  "groupBy_list flat_viz = []
   \<and> [(''x'', Str ''South''), (''y'', Num (Fin 7))] \<in> set (buildSeries ref_runtime flat_viz mixed_rows)
   \<and> (\<exists>n. obj_get [(''x'', Str ''South''), (''y'', Num (Fin 7))] ''y'' = Num n \<and> n \<noteq> NaN)"
proof -
  have g: "groupBy_list flat_viz = []" by code_simp
  have m: "[(''x'', Str ''South''), (''y'', Num (Fin 7))] \<in> set (buildSeries ref_runtime flat_viz mixed_rows)"
    by code_simp
  from flat_series_not_NaN [of ref_runtime flat_viz Null "''sales''" mixed_rows] g m
  have "\<exists>n. obj_get [(''x'', Str ''South''), (''y'', Num (Fin 7))] ''y'' = Num n \<and> n \<noteq> NaN"
    by blast
  with g m show ?thesis by blast
qed


section \<open>The empty result\<close>

lemma upsert_not_Nil: "upsert k v ob \<noteq> []"
  by (cases ob) auto

lemma group_step_not_Nil: "group_step rt g gs acc d \<noteq> []"
  by (simp add: group_step_def Let_def upsert_not_Nil split: option.splits)

lemma pivot_step_not_Nil: "pivot_step rt gb acc d \<noteq> []"
  by (simp add: pivot_step_def Let_def upsert_not_Nil)

lemma foldl_not_Nil:
  assumes "\<And>acc d. f acc d \<noteq> []"
  shows "foldl f acc m = [] \<longleftrightarrow> acc = [] \<and> m = []"
proof (induction m arbitrary: acc)
  case Nil show ?case by simp
next
  case (Cons d m) then show ?case using assms by simp
qed

lemma aggregate_Nil: "aggregate rt g gs m = [] \<longleftrightarrow> m = []"
  by (simp add: aggregate_def foldl_not_Nil [of "group_step rt g gs", OF group_step_not_Nil])

lemma pivot_Nil: "pivot rt gb m = [] \<longleftrightarrow> m = []"
  by (simp add: pivot_def foldl_not_Nil [of "pivot_step rt gb", OF pivot_step_not_Nil])

lemma insert_by_not_Nil: "insert_by cmp a bs \<noteq> []"
  by (cases bs) auto

lemma js_sort_Nil: "js_sort cmp xs = [] \<longleftrightarrow> xs = []"
  by (cases xs) (simp_all add: js_sort_def insert_by_not_Nil)

lemma sort_pivot_Nil: "sort_pivot rt viz xKey data = [] \<longleftrightarrow> data = []"
  by (simp add: sort_pivot_def js_sort_Nil)

lemma mapped_Nil: "mapped rt viz xKey yk rows = [] \<longleftrightarrow> (\<forall>r \<in> set rows. obj_get r yk = Num NaN)"
  by (simp add: mapped_eq filter_empty_conv)

lemma actualYKey_truthy: "truthy_key (actualYKey rt viz rows) \<longleftrightarrow> truthy_key (yKey viz)"
  by (auto simp: actualYKey_def truthy_key_def split: option.splits list.splits)

lemma buildSeries_Nil:
  "buildSeries rt viz rows = [] \<longleftrightarrow>
     rows = [] \<or> \<not> truthy_key (yKey viz)
     \<or> (\<exists>yk. actualYKey rt viz rows = Some yk \<and> (\<forall>r \<in> set rows. obj_get r yk = Num NaN))"
proof (cases "actualYKey rt viz rows")
  case None
  then show ?thesis
    using actualYKey_truthy [of rt viz rows] by (simp add: buildSeries_def truthy_key_def)
next
  case (Some yk)
  show ?thesis
  proof (cases "rows \<noteq> [] \<and> yk \<noteq> []")
    case False
    then show ?thesis
      using Some actualYKey_truthy [of rt viz rows] by (auto simp: buildSeries_def truthy_key_def)
  next
    case True
    then have t: "truthy_key (yKey viz)"
      using Some actualYKey_truthy [of rt viz rows] by (simp add: truthy_key_def)
    have "buildSeries rt viz rows = [] \<longleftrightarrow> mapped rt viz (pickXKey rt viz rows) yk rows = []"
      using Some True
      by (simp add: buildSeries_def Let_def aggregate_Nil pivot_Nil sort_pivot_Nil split: list.splits)
    then show ?thesis using Some True t by (simp add: mapped_Nil)
  qed
qed

lemma no_data_view:
  "viz_type viz \<noteq> Table \<Longrightarrow> buildSeries rt viz rows = [] \<Longrightarrow>
   ChartOrTable rt viz rows
     = NoData (''No valid data points found. Available keys: ''
               @ (case rows of [] \<Rightarrow> ''none'' | r0 # _ \<Rightarrow> join '', '' (keys r0)))"
  by (simp add: ChartOrTable_def)

lemma map_row_flat:
  "groupBy_list viz = [] \<Longrightarrow>
   map_row rt viz xKey yk r
     = [(''x'', js_coalesce (obj_get r (ToString rt xKey)) (Str ''Unknown'')), (''y'', Num (yNum rt (obj_get r yk)))]"
  by (simp add: map_row_def js_coalesce_def)

lemma obj_get_absent: "\<not> has_key r k \<Longrightarrow> obj_get r k = Undefined"
  by (simp add: obj_get_def has_key_def keys_def map_of_eq_None_iff[THEN iffD2])

lemma unresolved_zero:
  assumes "rows \<noteq> []" and "viz_y viz = Some (yk # ys)" and "yk \<noteq> []"
    and "\<forall>k \<in> set (keys (hd rows)). \<not> fuzzy rt yk k"
    and "\<forall>r \<in> set rows. \<not> has_key r yk" and "groupBy_list viz = []"
  shows "buildSeries rt viz rows
         = map (\<lambda>r. [(''x'', js_coalesce (obj_get r (ToString rt (pickXKey rt viz rows))) (Str ''Unknown'')),
                     (''y'', Num (Fin 0))]) rows"
proof -
  obtain r0 rs where rows: "rows = r0 # rs" using assms(1) by (cases rows) auto
  have nk: "\<not> has_key r0 yk" using assms(5) rows by simp
  have "find (fuzzy rt yk) (keys r0) = None"
    using assms(4) rows by (simp add: find_None_iff)
  then have a: "actualYKey rt viz rows = Some yk"
    by (simp add: actualYKey_cases [OF assms(2,3) rows nk])
  have "\<forall>r \<in> set rows. obj_get r yk = Undefined"
    using assms(5) by (simp add: obj_get_absent)
  then have "filter (\<lambda>r. obj_get r yk \<noteq> Num NaN) rows = rows"
    and "\<forall>r \<in> set rows. yNum rt (obj_get r yk) = Fin 0"
    by (simp_all add: yNum_simps)
  then show ?thesis
    by (simp add: buildSeries_flat [OF assms(6,1) a assms(3)] mapped_eq map_row_flat [OF assms(6)])
qed


text \<open>
  Claim C8, as amended.  The series builder gives the empty result exactly when there
  is no row, or the spec has no (non-empty) y hint, or every row's y is the number
  \<open>NaN\<close>; then the chart component renders the diagnostic that lists the keys of the first
  row (\<open>none\<close> without rows).  A y hint that matches no column does not give the empty
  result: the hint itself is read as the column, and without groupBy every row gives a
  point with y \<open>0\<close>.  The model has no error value because the code has no statement
  that throws on rows that are objects.
\<close>

theorem empty_series_diagnostic:
  "(buildSeries rt viz rows = [] \<longleftrightarrow>
      rows = [] \<or> \<not> truthy_key (yKey viz)
      \<or> (\<exists>yk. actualYKey rt viz rows = Some yk \<and> (\<forall>r \<in> set rows. obj_get r yk = Num NaN)))
   \<and> (viz_type viz \<noteq> Table \<and> buildSeries rt viz rows = [] \<longrightarrow>
        ChartOrTable rt viz rows
          = NoData (''No valid data points found. Available keys: ''
                    @ (case rows of [] \<Rightarrow> ''none'' | r0 # _ \<Rightarrow> join '', '' (keys r0))))
   \<and> (rows \<noteq> [] \<and> viz_y viz = Some (yk # ys) \<and> yk \<noteq> []
        \<and> (\<forall>k \<in> set (keys (hd rows)). \<not> fuzzy rt yk k)
        \<and> (\<forall>r \<in> set rows. \<not> has_key r yk) \<and> groupBy_list viz = [] \<longrightarrow>
        buildSeries rt viz rows
          = map (\<lambda>r. [(''x'', js_coalesce (obj_get r (ToString rt (pickXKey rt viz rows))) (Str ''Unknown'')),
                      (''y'', Num (Fin 0))]) rows)"
proof (intro conjI impI)
  show "buildSeries rt viz rows = [] \<longleftrightarrow>
      rows = [] \<or> \<not> truthy_key (yKey viz)
      \<or> (\<exists>yk. actualYKey rt viz rows = Some yk \<and> (\<forall>r \<in> set rows. obj_get r yk = Num NaN))"
    by (rule buildSeries_Nil)
next
  assume "viz_type viz \<noteq> Table \<and> buildSeries rt viz rows = []"
  then show "ChartOrTable rt viz rows
          = NoData (''No valid data points found. Available keys: ''
                    @ (case rows of [] \<Rightarrow> ''none'' | r0 # _ \<Rightarrow> join '', '' (keys r0)))"
    by (simp add: no_data_view)
next
  assume "rows \<noteq> [] \<and> viz_y viz = Some (yk # ys) \<and> yk \<noteq> []
        \<and> (\<forall>k \<in> set (keys (hd rows)). \<not> fuzzy rt yk k)
        \<and> (\<forall>r \<in> set rows. \<not> has_key r yk) \<and> groupBy_list viz = []"
  then show "buildSeries rt viz rows
          = map (\<lambda>r. [(''x'', js_coalesce (obj_get r (ToString rt (pickXKey rt viz rows))) (Str ''Unknown'')),
                      (''y'', Num (Fin 0))]) rows"
    using unresolved_zero [of rows viz yk ys rt] by blast
qed

theorem empty_series_diagnostic_witness:
  "buildSeries ref_runtime no_y_viz sales_rows = []
   \<and> ChartOrTable ref_runtime no_y_viz sales_rows
       = NoData ''No valid data points found. Available keys: region, sales''
   \<and> buildSeries ref_runtime unresolved_viz sales_rows
       = [[(''x'', Str ''North''), (''y'', Num (Fin 0))], [(''x'', Str ''South''), (''y'', Num (Fin 0))]]"
proof -
  note t = empty_series_diagnostic [of ref_runtime no_y_viz sales_rows "''profit''" "[]"]
  note u = empty_series_diagnostic [of ref_runtime unresolved_viz sales_rows "''profit''" "[]"]
  have e: "\<not> truthy_key (yKey no_y_viz)" by code_simp
  with t have b: "buildSeries ref_runtime no_y_viz sales_rows = []" by blast
  have "viz_type no_y_viz \<noteq> Table" by code_simp
  with t b have "ChartOrTable ref_runtime no_y_viz sales_rows
       = NoData (''No valid data points found. Available keys: ''
                    @ (case sales_rows of [] \<Rightarrow> ''none'' | r0 # _ \<Rightarrow> join '', '' (keys r0)))"
    by blast
  moreover have "(case sales_rows of [] \<Rightarrow> ''none'' | r0 # _ \<Rightarrow> join '', '' (keys r0)) = ''region, sales''"
    by code_simp
  ultimately have c: "ChartOrTable ref_runtime no_y_viz sales_rows
       = NoData ''No valid data points found. Available keys: region, sales''"
    by simp
  have "sales_rows \<noteq> [] \<and> viz_y unresolved_viz = Some (''profit'' # []) \<and> ''profit'' \<noteq> []
        \<and> (\<forall>k \<in> set (keys (hd sales_rows)). \<not> fuzzy ref_runtime ''profit'' k)
        \<and> (\<forall>r \<in> set sales_rows. \<not> has_key r ''profit'') \<and> groupBy_list unresolved_viz = []"
    by code_simp
  with u have "buildSeries ref_runtime unresolved_viz sales_rows
          = map (\<lambda>r. [(''x'', js_coalesce (obj_get r (ToString ref_runtime (pickXKey ref_runtime unresolved_viz sales_rows))) (Str ''Unknown'')),
                      (''y'', Num (Fin 0))]) sales_rows"
    by blast
  moreover have "map (\<lambda>r. [(''x'', js_coalesce (obj_get r (ToString ref_runtime (pickXKey ref_runtime unresolved_viz sales_rows))) (Str ''Unknown'')),
                      (''y'', Num (Fin 0))]) sales_rows
     = [[(''x'', Str ''North''), (''y'', Num (Fin 0))], [(''x'', Str ''South''), (''y'', Num (Fin 0))]]"
    by code_simp
  ultimately show ?thesis using b c by simp
qed

text \<open>
  Against C8 as stated: the y hint \<open>profit\<close> resolves to no column of the rows, and the
  component renders a chart of two points with y \<open>0\<close> instead of the diagnostic.
\<close>

theorem unresolved_y_not_empty:
  "actualYKey ref_runtime unresolved_viz sales_rows = Some ''profit''
   \<and> ChartOrTable ref_runtime unresolved_viz sales_rows
       = ChartView Bar
           [[(''x'', Str ''North''), (''y'', Num (Fin 0))], [(''x'', Str ''South''), (''y'', Num (Fin 0))]]
           [\<lparr>item_label = ''North'', item_value = Num (Fin 0)\<rparr>,
            \<lparr>item_label = ''South'', item_value = Num (Fin 0)\<rparr>]"
  by code_simp

section \<open>Inline and full-screen\<close>

lemma buildSeries_fs_eq: "buildSeries_fs rt viz rows = buildSeries rt viz rows"
  by (auto simp: buildSeries_fs_def buildSeries_def Let_def split: option.splits list.splits)

text \<open>
  Claim C6.  The two call sites share the resolution (\<open>pickXKey\<close> and the same code for
  the y column) and compute the same series for every spec and rows.  Their top lists
  differ: on two rows with sales 1 and 2 the inline list is sorted by value, largest
  first, while the full-screen list shows the rows in their original order.
\<close>

theorem fullscreen_top_list_differs:
  "(\<forall>rt viz rows. buildSeries_fs rt viz rows = buildSeries rt viz rows)
   \<and> TopList ref_runtime flat_viz sales_rows
       = [\<lparr>item_label = ''South'', item_value = Num (Fin 2)\<rparr>,
          \<lparr>item_label = ''North'', item_value = Num (Fin 1)\<rparr>]
   \<and> TopList_fs ref_runtime flat_viz sales_rows
       = [\<lparr>item_label = ''North'', item_value = Num (Fin 1)\<rparr>,
          \<lparr>item_label = ''South'', item_value = Num (Fin 2)\<rparr>]"
proof (intro conjI allI)
  fix rt viz rows show "buildSeries_fs rt viz rows = buildSeries rt viz rows"
    by (rule buildSeries_fs_eq)
next
  show "TopList ref_runtime flat_viz sales_rows
       = [\<lparr>item_label = ''South'', item_value = Num (Fin 2)\<rparr>,
          \<lparr>item_label = ''North'', item_value = Num (Fin 1)\<rparr>]"
    by code_simp
next
  show "TopList_fs ref_runtime flat_viz sales_rows
       = [\<lparr>item_label = ''North'', item_value = Num (Fin 1)\<rparr>,
          \<lparr>item_label = ''South'', item_value = Num (Fin 2)\<rparr>]"
    by code_simp
qed

theorem fullscreen_top_list_differs_witness:
  "buildSeries_fs ref_runtime flat_viz sales_rows
   = [[(''x'', Str ''North''), (''y'', Num (Fin 1))], [(''x'', Str ''South''), (''y'', Num (Fin 2))]]"
proof -
  have "buildSeries ref_runtime flat_viz sales_rows
   = [[(''x'', Str ''North''), (''y'', Num (Fin 1))], [(''x'', Str ''South''), (''y'', Num (Fin 2))]]"
    by code_simp
  with fullscreen_top_list_differs show ?thesis by simp
qed

section \<open>The date comparator\<close>

lemma date_cmp_eq:
  "date_cmp rt a b = num_sub (newDate_getTime rt (obj_get a ''x'')) (newDate_getTime rt (obj_get b ''x''))"
  by (simp add: date_cmp_def date_try_def)

text \<open>
  Claim C9.  The handler of the date comparator is never entered: for every runtime the
  comparator is the difference of the two time values.  On the x values \<open>late\<close> and
  \<open>early\<close>, which are no dates, the comparator is \<open>NaN\<close> (counted as \<open>0\<close> by the sort)
  although the string comparison puts \<open>late\<close> behind \<open>early\<close>, and the pivoted rows keep
  their insertion order.
\<close>

theorem date_sort_no_fallback:
  "(\<forall>rt a b. date_cmp rt a b
       = num_sub (newDate_getTime rt (obj_get a ''x'')) (newDate_getTime rt (obj_get b ''x'')))
   \<and> pickXKey ref_runtime pivot_viz late_rows = Str ''week''
   \<and> Date_getTime ref_runtime ''late'' = NaN \<and> Date_getTime ref_runtime ''early'' = NaN
   \<and> date_cmp ref_runtime [(''x'', Str ''late'')] [(''x'', Str ''early'')] = NaN
   \<and> locale_cmp ref_runtime [(''x'', Str ''late'')] [(''x'', Str ''early'')] = Fin 1
   \<and> buildSeries ref_runtime pivot_viz late_rows
       = [[(''x'', Str ''late''), (''North'', Num (Fin 1))],
          [(''x'', Str ''early''), (''North'', Num (Fin 2))]]"
proof (intro conjI allI)
  fix rt a b
  show "date_cmp rt a b
       = num_sub (newDate_getTime rt (obj_get a ''x'')) (newDate_getTime rt (obj_get b ''x''))"
    by (rule date_cmp_eq)
qed code_simp+

theorem date_sort_no_fallback_witness:
  "date_cmp ref_runtime [(''x'', Str ''2024-02'')] [(''x'', Str ''2024-01'')] = Fin 2678400000"
proof -
  have "num_sub (newDate_getTime ref_runtime (obj_get [(''x'', Str ''2024-02'')] ''x''))
          (newDate_getTime ref_runtime (obj_get [(''x'', Str ''2024-01'')] ''x'')) = Fin 2678400000"
    by code_simp
  with date_sort_no_fallback show ?thesis by simp
qed

section \<open>Maps filled by a loop\<close>






section \<open>The sort\<close>










section \<open>Aggregation by the groupBy dimensions\<close>

















section \<open>The pivot\<close>


























section \<open>The ranked summary of a time series\<close>


















end
